theory Spec2Isabelle
  imports Complex_Main "HOL-Library.Sublist" "HOL-Library.Multiset"
begin

section \<open>Text\<close>

text \<open>
  A Python \<open>str\<close> is a sequence of code points. The model uses \<^typ>\<open>string\<close>, reading
  each \<^typ>\<open>char\<close> as one code point in the range U+0000..U+00FF; the character
  classes below are Python's on that range.
\<close>

definition py_lower_char :: "char \<Rightarrow> char" where
  \<comment> \<open>\<open>str.lower\<close> on one code point: A-Z, and the Latin-1 capitals except the
      multiplication sign U+00D7, move up by 32.\<close>
  "py_lower_char c =
     (let n = (of_char c :: nat)
      in if (65 \<le> n \<and> n \<le> 90) \<or> (192 \<le> n \<and> n \<le> 222 \<and> n \<noteq> 215)
         then char_of (n + 32) else c)"

definition py_lower :: "string \<Rightarrow> string" where
  "py_lower s = map py_lower_char s"

fun starts_with :: "string \<Rightarrow> string \<Rightarrow> bool" where
  \<comment> \<open>\<open>starts_with needle s\<close>: \<open>s.startswith(needle)\<close>.\<close>
  "starts_with [] s = True"
| "starts_with (a # as) [] = False"
| "starts_with (a # as) (c # cs) = (a = c \<and> starts_with as cs)"

fun py_in :: "string \<Rightarrow> string \<Rightarrow> bool" where
  \<comment> \<open>\<open>py_in needle s\<close>: Python's \<open>needle in s\<close> on strings.\<close>
  "py_in needle [] = (needle = [])"
| "py_in needle (c # cs) = (starts_with needle (c # cs) \<or> py_in needle cs)"

definition py_any_in :: "string list \<Rightarrow> string \<Rightarrow> bool" where
  \<comment> \<open>\<open>any(term in s for term in terms)\<close>.\<close>
  "py_any_in terms s = list_ex (\<lambda>t. py_in t s) terms"

section \<open>Material classifier\<close>

text \<open>
  \<open>categorize_material\<close> of both variants (\<open>app.py\<close>, \<open>map_dashboard.py\<close>). The catalog's
  \<open>Material\<close> column holds text after loading, so \<open>str(material)\<close> is the text itself.
\<close>

definition categorize_material :: "string \<Rightarrow> string" where
  "categorize_material material =
     (let material_lower = py_lower material
      in if py_any_in [''concrete'', ''cement''] material_lower then ''Concrete/Cement''
         else if py_any_in [''ceramic'', ''clay''] material_lower then ''Ceramics/Clay''
         else if py_in ''composite'' material_lower then ''Composite''
         else if py_any_in [''plastic'', ''polymer''] material_lower then ''Plastic/Polymer''
         else if py_in ''metal'' material_lower then ''Metal''
         else ''Other/Experimental'')"

definition categories :: "string list" where
  "categories = [''Concrete/Cement'', ''Ceramics/Clay'', ''Composite'',
                 ''Plastic/Polymer'', ''Metal'', ''Other/Experimental'']"

section \<open>Command parser\<close>

text \<open>
  The two variants differ in one character class only: \<open>map_dashboard.py\<close> writes the
  separator of the second range pattern as a hyphen or an en dash (U+2013), \<open>app.py\<close> holds the
  same class with the en dash stored as the three code points U+00E2, U+20AC, U+201C.
\<close>

datatype variant = App | MapDashboard

definition is_digit :: "char \<Rightarrow> bool" where
  \<comment> \<open>\<open>\d\<close> and \<open>[0-9]\<close>: on the modelled range both are the ASCII digits.\<close>
  "is_digit c = (let n = (of_char c :: nat) in 48 \<le> n \<and> n \<le> 57)"

definition is_space :: "char \<Rightarrow> bool" where
  \<comment> \<open>\<open>\s\<close>: the code points for which \<open>str.isspace\<close> holds.\<close>
  "is_space c =
     (let n = (of_char c :: nat)
      in (9 \<le> n \<and> n \<le> 13) \<or> (28 \<le> n \<and> n \<le> 32) \<or> n = 133 \<or> n = 160)"

definition is_word :: "char \<Rightarrow> bool" where
  \<comment> \<open>\<open>\w\<close>: the underscore and the code points for which \<open>str.isalnum\<close> holds.\<close>
  "is_word c =
     (let n = (of_char c :: nat)
      in (48 \<le> n \<and> n \<le> 57) \<or> (65 \<le> n \<and> n \<le> 90) \<or> n = 95 \<or> (97 \<le> n \<and> n \<le> 122)
         \<or> n = 170 \<or> n = 178 \<or> n = 179 \<or> n = 181 \<or> n = 185 \<or> n = 186
         \<or> (188 \<le> n \<and> n \<le> 190) \<or> (192 \<le> n \<and> n \<le> 214) \<or> (216 \<le> n \<and> n \<le> 246)
         \<or> 248 \<le> n)"

definition is_dash :: "variant \<Rightarrow> char \<Rightarrow> bool" where
  \<comment> \<open>The class between the two years of the second pattern. Of its members only the
      hyphen, and in \<open>app.py\<close> U+00E2, lie in the modelled range.\<close>
  "is_dash v c =
     (case v of MapDashboard \<Rightarrow> c = CHR ''-''
              | App \<Rightarrow> c = CHR ''-'' \<or> (of_char c :: nat) = 226)"

definition digit_val :: "char \<Rightarrow> int" where
  "digit_val c = int (of_char c) - 48"

definition py_int :: "string \<Rightarrow> int" where
  \<comment> \<open>\<open>int(s)\<close> for a string of decimal digits, the only strings it is applied to.\<close>
  "py_int s = foldl (\<lambda>acc c. 10 * acc + digit_val c) 0 s"

definition strip_prefix :: "string \<Rightarrow> string \<Rightarrow> string option" where
  "strip_prefix p s = (if starts_with p s then Some (drop (length p) s) else None)"

definition alt2 :: "string \<Rightarrow> string \<Rightarrow> string \<Rightarrow> string option" where
  \<comment> \<open>\<open>(?:p|q)\<close> for two words with different first letters: at most one of them
      matches, so the matcher never has to come back to the second.\<close>
  "alt2 p q s = (case strip_prefix p s of Some r \<Rightarrow> Some r | None \<Rightarrow> strip_prefix q s)"

definition spaces1 :: "string \<Rightarrow> string option" where
  \<comment> \<open>\<open>\s+\<close> before something that is not white space: it takes the whole run.\<close>
  "spaces1 s =
     (case s of [] \<Rightarrow> None
              | c # cs \<Rightarrow> if is_space c then Some (dropWhile is_space cs) else None)"

definition digits4 :: "string \<Rightarrow> (string \<times> string) option" where
  \<comment> \<open>\<open>(\d{4})\<close>: the group and the rest.\<close>
  "digits4 s =
     (if 4 \<le> length s \<and> list_all is_digit (take 4 s) then Some (take 4 s, drop 4 s) else None)"

definition four_digits :: "string \<Rightarrow> bool" where
  \<comment> \<open>What a group \<open>(\d{4})\<close> can hold.\<close>
  "four_digits x = (length x = 4 \<and> list_all is_digit x)"

definition match_from_to :: "string \<Rightarrow> (string \<times> string) option" where
  \<comment> \<open>\<open>(?:from|between)\s+(\d{4})\s+(?:to|and)\s+(\d{4})\<close> at the start of \<open>s\<close>.\<close>
  "match_from_to s =
     (case alt2 ''from'' ''between'' s of None \<Rightarrow> None | Some r1 \<Rightarrow>
      case spaces1 r1 of None \<Rightarrow> None | Some r2 \<Rightarrow>
      case digits4 r2 of None \<Rightarrow> None | Some (x, r3) \<Rightarrow>
      case spaces1 r3 of None \<Rightarrow> None | Some r4 \<Rightarrow>
      case alt2 ''to'' ''and'' r4 of None \<Rightarrow> None | Some r5 \<Rightarrow>
      case spaces1 r5 of None \<Rightarrow> None | Some r6 \<Rightarrow>
      case digits4 r6 of None \<Rightarrow> None | Some (y, r7) \<Rightarrow> Some (x, y))"

definition match_dash :: "variant \<Rightarrow> string \<Rightarrow> (string \<times> string) option" where
  \<comment> \<open>\<open>(\d{4})\s*[-...]\s*(\d{4})\<close> at the start of \<open>s\<close>.\<close>
  "match_dash v s =
     (case digits4 s of None \<Rightarrow> None | Some (x, r1) \<Rightarrow>
      case dropWhile is_space r1 of [] \<Rightarrow> None | c # r2 \<Rightarrow>
        if is_dash v c
        then (case digits4 (dropWhile is_space r2) of None \<Rightarrow> None
                | Some (y, r3) \<Rightarrow> Some (x, y))
        else None)"

definition match_to :: "string \<Rightarrow> (string \<times> string) option" where
  \<comment> \<open>\<open>(\d{4})\s+to\s+(\d{4})\<close> at the start of \<open>s\<close>.\<close>
  "match_to s =
     (case digits4 s of None \<Rightarrow> None | Some (x, r1) \<Rightarrow>
      case spaces1 r1 of None \<Rightarrow> None | Some r2 \<Rightarrow>
      case strip_prefix ''to'' r2 of None \<Rightarrow> None | Some r3 \<Rightarrow>
      case spaces1 r3 of None \<Rightarrow> None | Some r4 \<Rightarrow>
      case digits4 r4 of None \<Rightarrow> None | Some (y, r5) \<Rightarrow> Some (x, y))"

fun re_search :: "(string \<Rightarrow> 'a option) \<Rightarrow> string \<Rightarrow> 'a option" where
  \<comment> \<open>\<open>re.search\<close>: the match at the leftmost position that has one.\<close>
  "re_search m [] = m []"
| "re_search m (c # cs) = (case m (c # cs) of Some r \<Rightarrow> Some r | None \<Rightarrow> re_search m cs)"

definition range_patterns :: "variant \<Rightarrow> (string \<Rightarrow> (string \<times> string) option) list" where
  "range_patterns v = [match_from_to, match_dash v, match_to]"

fun first_range_match ::
  "(string \<Rightarrow> (string \<times> string) option) list \<Rightarrow> string \<Rightarrow> (string \<times> string) option" where
  \<comment> \<open>The loop over \<open>range_patterns\<close>, left at the first pattern found in the message.\<close>
  "first_range_match [] s = None"
| "first_range_match (m # ms) s =
     (case re_search m s of Some r \<Rightarrow> Some r | None \<Rightarrow> first_range_match ms s)"

definition year_at :: "string \<Rightarrow> bool" where
  \<comment> \<open>\<open>(20[0-9]{2}|19[0-9]{2})\b\<close> at the start of \<open>s\<close>.\<close>
  "year_at s =
     (4 \<le> length s \<and> (take 2 s = ''20'' \<or> take 2 s = ''19'')
      \<and> is_digit (s ! 2) \<and> is_digit (s ! 3)
      \<and> (length s = 4 \<or> \<not> is_word (s ! 4)))"

fun year_tokens :: "bool \<Rightarrow> nat \<Rightarrow> string \<Rightarrow> string list" where
  \<comment> \<open>\<open>re.findall(r'\b(20[0-9]{2}|19[0-9]{2})\b', s)\<close>, scanning left to right:
      \<open>prevw\<close> tells whether the character before is a word character, \<open>skip\<close> counts
      the characters of the last match still to be passed over.\<close>
  "year_tokens prevw skip [] = []"
| "year_tokens prevw skip (c # cs) =
     (if 0 < skip then year_tokens (is_word c) (skip - 1) cs
      else if \<not> prevw \<and> year_at (c # cs)
           then take 4 (c # cs) # year_tokens (is_word c) 3 cs
           else year_tokens (is_word c) 0 cs)"

definition material_mappings :: "(string \<times> string) list" where
  "material_mappings =
     [(''concrete'', ''Concrete/Cement''), (''cement'', ''Concrete/Cement''),
      (''ceramic'', ''Ceramics/Clay''), (''clay'', ''Ceramics/Clay''),
      (''composite'', ''Composite''),
      (''plastic'', ''Plastic/Polymer''), (''polymer'', ''Plastic/Polymer''),
      (''metal'', ''Metal''), (''experimental'', ''Other/Experimental'')]"

fun find_material :: "(string \<times> string) list \<Rightarrow> string \<Rightarrow> string option" where
  \<comment> \<open>The loop over the mapping in insertion order, left at the first keyword found.\<close>
  "find_material [] s = None"
| "find_material ((keyword, category) # ms) s =
     (if py_in keyword s then Some category else find_material ms s)"

definition reset_keywords :: "string list" where
  "reset_keywords =
     [''reset'', ''clear'', ''all projects'', ''show all'', ''remove filters'', ''no filter'']"

record commands =
  cmd_material :: "string option"
  cmd_year_range :: "(int \<times> int) option"
  cmd_reset :: bool

definition fallback_years :: "string \<Rightarrow> (int \<times> int) option" where
  \<comment> \<open>The branch taken when no range pattern matched; it reads the message as typed.\<close>
  "fallback_years message =
     (case year_tokens False 0 message of
        [] \<Rightarrow> None
      | [y] \<Rightarrow> Some (py_int y, py_int y)
      | y1 # y2 # ys \<Rightarrow> Some (min (py_int y1) (py_int y2), max (py_int y1) (py_int y2)))"

definition parse_year_range :: "variant \<Rightarrow> string \<Rightarrow> (int \<times> int) option" where
  "parse_year_range v message =
     (case first_range_match (range_patterns v) (py_lower message) of
        Some (x, y) \<Rightarrow> Some (min (py_int x) (py_int y), max (py_int x) (py_int y))
      | None \<Rightarrow> fallback_years message)"

definition parse_filter_command :: "variant \<Rightarrow> string \<Rightarrow> commands" where
  "parse_filter_command v message =
     \<lparr> cmd_material = find_material material_mappings (py_lower message),
       cmd_year_range = parse_year_range v message,
       cmd_reset = py_any_in reset_keywords (py_lower message) \<rparr>"

section \<open>Project catalog\<close>

text \<open>
  One row of the data frame \<open>df\<close>. \<open>load_data\<close> drops every row whose \<open>Project\<close>, \<open>Year\<close>,
  \<open>Country\<close>, \<open>Material\<close> or \<open>Organization\<close> is missing, so these columns hold values in
  every row; the other columns may hold a missing value (\<open>NaN\<close>), written \<^term>\<open>None\<close>.
  Years are whole numbers. Of a coordinate the code uses no arithmetic, only the value itself.
\<close>

record project =
  Project :: string
  Year :: int
  Country :: string
  City :: "string option"
  Material :: string
  Organization :: string
  Latitude :: "real option"
  Longitude :: "real option"
  Description :: "string option"
  Link :: "string option"
  Material_Category :: string

definition with_category :: "project \<Rightarrow> project" where
  \<comment> \<open>\<open>df['Material_Category'] = df['Material'].apply(categorize_material)\<close>, row by row.\<close>
  "with_category r = r\<lparr>Material_Category := categorize_material (Material r)\<rparr>"

section \<open>Filter engine\<close>

text \<open>
  \<open>Series.str.contains(pat, na=False)\<close> reads \<open>pat\<close> as a regular expression: pandas
  compiles it once (\<open>re.compile\<close>, which raises \<open>re.error\<close> on a pattern that is not a
  regular expression) and then keeps the rows where \<open>search\<close> finds a match. The engine is
  Python's \<open>re\<close>, which is no part of the repository: it is a parameter of the model, a
  function from the pattern to the compiled matcher, \<^term>\<open>None\<close> when compiling
  raises. What a theorem needs to know of the engine it says.

  The accessor \<open>.str\<close> exists on a column of text only. The columns \<open>Project\<close>,
  \<open>Organization\<close>, \<open>Country\<close> and \<open>Material\<close> hold a text in every row. \<open>City\<close> is a
  column of text (dtype \<open>object\<close>) when some row of the file holds a city; a \<open>City\<close> column
  without any text is read as a column of numbers (\<open>float64\<close>), and \<open>.str\<close> on it raises
  \<open>AttributeError\<close>. Which of the two it is, is the parameter \<open>city_text\<close> below; a row
  with a city is found in a column of text only.
\<close>

type_synonym regex_engine = "string \<Rightarrow> (string \<Rightarrow> bool) option"

definition is_meta :: "char \<Rightarrow> bool" where
  \<comment> \<open>The characters with a special meaning in a pattern; 92 is the backslash.\<close>
  "is_meta c = (c \<in> set ''.^$*+?{}[]|()'' \<or> (of_char c :: nat) = 92)"



definition literal_on_plain :: "regex_engine \<Rightarrow> regex_engine" where
  \<comment> \<open>Any engine, made to read the patterns without special characters as Python's
      \<open>re\<close> does and left as it is on every other pattern.\<close>
  "literal_on_plain engine pat =
     (if list_all (\<lambda>c. \<not> is_meta c) pat then Some (py_in pat) else engine pat)"

definition str_lower_contains :: "(string \<Rightarrow> bool) \<Rightarrow> string option \<Rightarrow> bool" where
  \<comment> \<open>\<open>column.str.lower().str.contains(pat, na=False)\<close> on one cell of a column of text.\<close>
  "str_lower_contains rx cell = (case cell of None \<Rightarrow> False | Some s \<Rightarrow> rx (py_lower s))"

definition search_mask :: "(string \<Rightarrow> bool) \<Rightarrow> project \<Rightarrow> bool" where
  "search_mask rx r =
     (str_lower_contains rx (Some (Project r)) \<or>
      str_lower_contains rx (Some (Organization r)) \<or>
      str_lower_contains rx (Some (Country r)) \<or>
      str_lower_contains rx (City r) \<or>
      str_lower_contains rx (Some (Material r)))"

definition search_step ::
  "regex_engine \<Rightarrow> bool \<Rightarrow> string option \<Rightarrow> project list \<Rightarrow> project list option" where
  \<comment> \<open>\<open>if search_term: ...\<close>; an empty text and no text at all are both skipped.
      \<^term>\<open>None\<close>: the callback raised, \<open>re.error\<close> when the pattern did not compile
      (at the first column), \<open>AttributeError\<close> when \<open>City\<close> is not a column of text.\<close>
  "search_step engine city_text search_term rows =
     (case search_term of
        None \<Rightarrow> Some rows
      | Some t \<Rightarrow>
          if t = [] then Some rows
          else (case engine (py_lower t) of
                  None \<Rightarrow> None
                | Some rx \<Rightarrow>
                    if city_text then Some (filter (search_mask rx) rows) else None))"

record filter_state =
  material_filter :: string
  year_range :: "int \<times> int"
  search_term :: "string option"

definition year_step :: "int \<times> int \<Rightarrow> project list \<Rightarrow> project list" where
  "year_step yr rows = filter (\<lambda>r. fst yr \<le> Year r \<and> Year r \<le> snd yr) rows"

definition material_step :: "string \<Rightarrow> project list \<Rightarrow> project list" where
  "material_step m rows =
     (if m \<noteq> ''all'' then filter (\<lambda>r. Material_Category r = m) rows else rows)"

definition filtered_df ::
  "regex_engine \<Rightarrow> bool \<Rightarrow> project list \<Rightarrow> filter_state \<Rightarrow> project list option" where
  \<comment> \<open>The filtering part shared by \<open>update_dashboard\<close> and \<open>update_dashboard_with_selection\<close>.\<close>
  "filtered_df engine city_text df st =
     search_step engine city_text (search_term st)
       (material_step (material_filter st) (year_step (year_range st) df))"

section \<open>View synthesizer\<close>

definition timeline_data :: "project list \<Rightarrow> (int \<times> nat) list" where
  \<comment> \<open>\<open>groupby('Year').size().reset_index(name='Count')\<close>: one pair for each year that
      occurs, in ascending order of the year, with the number of rows of that year.\<close>
  "timeline_data rows =
     map (\<lambda>y. (y, length (filter (\<lambda>r. Year r = y) rows))) (sort (remdups (map Year rows)))"

definition timeline_fig :: "project list \<Rightarrow> (int \<times> nat) list" where
  \<comment> \<open>The points of the timeline figure: the trace of years and counts when there are
      rows, a figure without a trace otherwise.\<close>
  "timeline_fig rows = (if rows \<noteq> [] then timeline_data rows else [])"

record marker =
  lat :: "real option"
  lon :: "real option"
  customdata :: string
  tooltip_place :: "string option"
  tooltip_category :: string
  tooltip_year :: int
  tooltip_organization :: string

definition marker_of :: "project \<Rightarrow> marker" where
  \<comment> \<open>The entries one row contributes to the arrays of a \<open>Scattergeo\<close> trace. The tooltip is
      kept as its parts; the place is missing when the city is.\<close>
  "marker_of r =
     \<lparr> lat = Latitude r, lon = Longitude r, customdata = Project r,
       tooltip_place = (case City r of None \<Rightarrow> None | Some c \<Rightarrow> Some (c @ '', '' @ Country r)),
       tooltip_category = Material_Category r, tooltip_year = Year r,
       tooltip_organization = Organization r \<rparr>"

record trace =
  trace_name :: string
  trace_size :: nat
  points :: "marker list"

definition map_fig :: "variant \<Rightarrow> project list \<Rightarrow> string \<Rightarrow> trace list" where
  \<comment> \<open>The traces of the map figure. The catalog has the columns \<open>Latitude\<close> and
      \<open>Longitude\<close>, so the test \<open>'Latitude' in filtered_df.columns\<close> holds.\<close>
  "map_fig v rows new_selected =
     (if rows = [] then []
      else case v of
        App \<Rightarrow> [\<lparr> trace_name = ''projects'', trace_size = 10, points = map marker_of rows \<rparr>]
      | MapDashboard \<Rightarrow>
          (let non_selected = filter (\<lambda>r. Project r \<noteq> new_selected) rows;
               selected = filter (\<lambda>r. Project r = new_selected) rows
           in (if non_selected \<noteq> []
               then [\<lparr> trace_name = ''projects'', trace_size = 10,
                       points = map marker_of non_selected \<rparr>]
               else []) @
              (if selected \<noteq> [] \<and> new_selected \<noteq> []
               then [\<lparr> trace_name = ''selected_project'', trace_size = 15,
                       points = map marker_of selected \<rparr>]
               else [])))"

definition markers :: "trace list \<Rightarrow> marker list" where
  "markers fig = concat (map points fig)"

datatype list_item =
  Item (item_name: string) (item_organization: string) (item_year: int)
       (item_city: "string option") (item_country: string) (item_highlighted: bool)
| Placeholder

definition project_list :: "variant \<Rightarrow> project list \<Rightarrow> string \<Rightarrow> list_item list" where
  \<comment> \<open>Only \<open>map_dashboard.py\<close> highlights the selected project.\<close>
  "project_list v rows new_selected =
     (if rows \<noteq> []
      then map (\<lambda>r. Item (Project r) (Organization r) (Year r) (City r) (Country r)
                       (v = MapDashboard \<and> Project r = new_selected)) rows
      else [Placeholder])"

section \<open>Selection\<close>

text \<open>
  Both callbacks read the first entry of \<open>ctx.triggered\<close> only, and of it the \<open>prop_id\<close>:
  \<open>world-map.clickData\<close>, \<open>close-panel.n_clicks\<close>, or for a list item the JSON text of
  its identifier followed by \<open>.n_clicks\<close>. The click data of the map is absent
  (\<^term>\<open>None\<close>) or holds the points, each with or without \<open>customdata\<close>.
\<close>

type_synonym click_data = "string option list option"

definition clicked_customdata :: "click_data \<Rightarrow> string option" where
  \<comment> \<open>\<open>map_click_data['points'][0]['customdata']\<close>; \<^term>\<open>None\<close> when that raises.\<close>
  "clicked_customdata d = (case d of None \<Rightarrow> None | Some [] \<Rightarrow> None | Some (p # ps) \<Rightarrow> p)"

definition toggle :: "string \<Rightarrow> string option \<Rightarrow> string" where
  \<comment> \<open>\<open>clicked_project if clicked_project != current_selected else ""\<close>.\<close>
  "toggle clicked_project current_selected =
     (if Some clicked_project \<noteq> current_selected then clicked_project else [])"

fun py_find :: "string \<Rightarrow> string \<Rightarrow> nat option" where
  \<comment> \<open>\<open>s.find(needle)\<close>; \<^term>\<open>None\<close> stands for -1.\<close>
  "py_find needle [] = (if needle = [] then Some 0 else None)"
| "py_find needle (c # cs) =
     (if starts_with needle (c # cs) then Some 0 else map_option Suc (py_find needle cs))"

definition name_key :: string where
  \<open>name_key = ''"project_name":"''\<close>

definition extract_project_name :: "string \<Rightarrow> string option" where
  \<comment> \<open>The text between \<open>"project_name":"\<close> and the next double quote; when there is no
      next quote \<open>find\<close> gives -1 and the slice \<open>[start:-1]\<close> drops the last character.
      \<^term>\<open>None\<close> when the key does not occur.\<close>
  \<open>extract_project_name trigger_id =
     (case py_find name_key trigger_id of
        None \<Rightarrow> None
      | Some i \<Rightarrow>
          (let rest = drop (i + length name_key) trigger_id
           in case py_find ''"'' rest of
                Some j \<Rightarrow> Some (take j rest)
              | None \<Rightarrow> Some (butlast rest)))\<close>

definition update_selection ::
  "(string \<Rightarrow> string option) \<Rightarrow> string list \<Rightarrow> click_data \<Rightarrow> string option \<Rightarrow> string" where
  \<comment> \<open>The selection part of \<open>update_dashboard_with_selection\<close> (\<open>map_dashboard.py\<close>).
      \<open>json_name text\<close> stands for \<open>json.loads(text)['project_name']\<close>, \<^term>\<open>None\<close> when
      that raises \<open>JSONDecodeError\<close> or \<open>KeyError\<close>.\<close>
  "update_selection json_name triggered map_click_data current_selected =
     (let new_selected = (case current_selected of None \<Rightarrow> [] | Some s \<Rightarrow> s)
      in case triggered of
           [] \<Rightarrow> new_selected
         | trigger_id # others \<Rightarrow>
             if py_in ''close-panel'' trigger_id then []
             else if py_in ''world-map.clickData'' trigger_id \<and> map_click_data \<noteq> None
             then (case clicked_customdata map_click_data of
                     Some clicked_project \<Rightarrow> toggle clicked_project current_selected
                   | None \<Rightarrow> new_selected)
             else if py_in ''project-item'' trigger_id
             then (case json_name (takeWhile (\<lambda>c. c \<noteq> CHR ''.'') trigger_id) of
                     Some clicked_project \<Rightarrow> toggle clicked_project current_selected
                   | None \<Rightarrow>
                       (case extract_project_name trigger_id of
                          Some clicked_project \<Rightarrow> toggle clicked_project current_selected
                        | None \<Rightarrow> new_selected))
             else new_selected)"

datatype frame = NoColumns | Frame "project list"

definition df_empty :: "frame \<Rightarrow> bool" where
  \<comment> \<open>\<open>df.empty\<close>: \<open>load_data\<close> returns a frame without columns when loading fails.\<close>
  "df_empty df = (case df of NoColumns \<Rightarrow> True | Frame rows \<Rightarrow> rows = [])"

datatype panel_style = Unchanged | SlideIn | SlideOut

datatype panel_content = NoContent | Details project | ErrorContent

definition toggle_project_panel ::
  "frame \<Rightarrow> string list \<Rightarrow> nat option list \<Rightarrow> click_data \<Rightarrow> string
     \<Rightarrow> panel_style \<times> panel_content \<times> string" where
  \<comment> \<open>\<open>toggle_project_panel\<close> of \<open>app.py\<close>; the third component is the new content of
      \<open>current-open-project\<close>.\<close>
  "toggle_project_panel df triggered project_clicks map_click_data current_open_project =
     (case triggered of
        [] \<Rightarrow> (Unchanged, NoContent, [])
      | trigger_id # others \<Rightarrow>
          if py_in ''close-panel'' trigger_id then (SlideOut, NoContent, [])
          else
            (let clicked =
                   (if py_in ''world-map.clickData'' trigger_id \<and> map_click_data \<noteq> None
                    then (case clicked_customdata map_click_data of
                            None \<Rightarrow> Inl ()
                          | Some c \<Rightarrow> Inr (Some c))
                    else if list_ex (\<lambda>n. case n of None \<Rightarrow> False | Some k \<Rightarrow> 0 < k) project_clicks
                    then Inr (extract_project_name trigger_id)
                    else Inr None)
             in case clicked of
                  Inl u \<Rightarrow> (Unchanged, NoContent, current_open_project)
                | Inr None \<Rightarrow> (Unchanged, NoContent, current_open_project)
                | Inr (Some clicked_project_name) \<Rightarrow>
                    if clicked_project_name \<noteq> [] \<and> \<not> df_empty df
                    then if clicked_project_name = current_open_project
                         then (SlideOut, NoContent, [])
                         else (case df of
                                 NoColumns \<Rightarrow> (SlideIn, ErrorContent, clicked_project_name)
                               | Frame rows \<Rightarrow>
                                   (case List.find (\<lambda>r. Project r = clicked_project_name) rows of
                                      Some r \<Rightarrow> (SlideIn, Details r, clicked_project_name)
                                    | None \<Rightarrow> (SlideIn, ErrorContent, clicked_project_name)))
                    else (Unchanged, NoContent, current_open_project)))"

section \<open>The dashboard callbacks\<close>

datatype dashboard =
  NoData
| Views (view_map: "trace list") (view_timeline: "(int \<times> nat) list") (view_list: "list_item list")

definition update_dashboard ::
  "regex_engine \<Rightarrow> bool \<Rightarrow> frame \<Rightarrow> filter_state \<Rightarrow> dashboard option" where
  \<comment> \<open>\<open>update_dashboard\<close> of \<open>app.py\<close>, its three inputs taken as one filter state;
      \<^term>\<open>None\<close> when the search step raises.\<close>
  "update_dashboard engine city_text df st =
     (if df_empty df then Some NoData
      else case df of
        NoColumns \<Rightarrow> Some NoData
      | Frame catalog \<Rightarrow>
          (case filtered_df engine city_text catalog st of
             None \<Rightarrow> None
           | Some rows \<Rightarrow>
               Some (Views (map_fig App rows []) (timeline_fig rows) (project_list App rows []))))"

definition update_dashboard_with_selection ::
  "regex_engine \<Rightarrow> bool \<Rightarrow> (string \<Rightarrow> string option) \<Rightarrow> frame \<Rightarrow> string list
     \<Rightarrow> filter_state \<Rightarrow> click_data \<Rightarrow> string option \<Rightarrow> (dashboard \<times> string) option" where
  \<comment> \<open>\<open>update_dashboard_with_selection\<close> of \<open>map_dashboard.py\<close>: the views and the new
      content of \<open>selected-project-store\<close>.\<close>
  "update_dashboard_with_selection engine city_text json_name df triggered st map_click_data
       current_selected =
     (let new_selected = update_selection json_name triggered map_click_data current_selected
      in if df_empty df then Some (NoData, new_selected)
         else case df of
           NoColumns \<Rightarrow> Some (NoData, new_selected)
         | Frame catalog \<Rightarrow>
             (case filtered_df engine city_text catalog st of
                None \<Rightarrow> None
              | Some rows \<Rightarrow>
                  Some (Views (map_fig MapDashboard rows new_selected) (timeline_fig rows)
                          (project_list MapDashboard rows new_selected),
                        new_selected)))"

section \<open>Chat orchestrator\<close>

datatype filter_message = FiltersReset | FiltersApplied "string option" "(int \<times> int) option"

definition year_bounds :: "project list \<Rightarrow> int \<times> int" where
  \<comment> \<open>\<open>[int(df['Year'].min()), int(df['Year'].max())]\<close> of a frame with rows.\<close>
  "year_bounds rows =
     (case map Year rows of
        [] \<Rightarrow> (2015, 2025)
      | y # ys \<Rightarrow> (fold min ys y, fold max ys y))"

definition apply_commands ::
  "frame \<Rightarrow> commands \<Rightarrow> string \<Rightarrow> int \<times> int
     \<Rightarrow> string \<times> (int \<times> int) \<times> filter_message option" where
  \<comment> \<open>The block \<open>if 'reset' in filter_commands: ... else: ...\<close>. The third component is
      the filter message, present exactly when \<open>filter_applied\<close> is true.\<close>
  "apply_commands df filter_commands current_material current_year_range =
     (if cmd_reset filter_commands
      then (''all'',
            (if \<not> df_empty df
             then (case df of Frame rows \<Rightarrow> year_bounds rows | NoColumns \<Rightarrow> (2015, 2025))
             else (2015, 2025)),
            Some FiltersReset)
      else
        (let new_material =
               (case cmd_material filter_commands of Some m \<Rightarrow> m | None \<Rightarrow> current_material);
             new_year_range =
               (case cmd_year_range filter_commands of Some yr \<Rightarrow> yr | None \<Rightarrow> current_year_range);
             filter_applied =
               (\<not> (cmd_material filter_commands = None \<and> cmd_year_range filter_commands = None))
         in (new_material, new_year_range,
             if filter_applied
             then Some (FiltersApplied (cmd_material filter_commands)
                          (cmd_year_range filter_commands))
             else None)))"

datatype role = User | Assistant

type_synonym history = "(role \<times> string) list"

datatype ai_text = Reply string | CallFailed string

datatype chat_div =
  You string
| AI "filter_message option" ai_text
| AIUnavailable
| AIError string
| AIPrank

text \<open>
  The lines of the chat display: the user's message; the assistant's line, which is the
  filter message (when a filter was applied) followed by the reply, or in \<open>app.py\<close> by the
  text \<open>AI error: e\<close> of a failed call; the red lines \<open>AI assistant unavailable\<close> and
  \<open>AI error: \<close> followed by the first 50 characters of the exception's text; and the fixed reply of the
  easter egg.
\<close>

record request =
  req_rows :: "project list"
  req_material :: string
  req_years :: "int \<times> int"
  req_history :: history
  req_filter_message :: "filter_message option"
  req_message :: string

text \<open>
  What the request to the text-generation service is built from: the system context is a
  function of the filtered rows and the new filter values, the turns are the history with
  its last turn replaced by the current message, prefixed by the filter message when a
  filter was applied. The service itself is a parameter: it answers with the content of the
  first choice, or fails with the text of an exception (\<^term>\<open>Inl\<close>).
\<close>

record chat_result =
  chat_display :: "chat_div list"
  chat_input :: string
  material_value :: string
  year_value :: "int \<times> int"
  history_store :: "history option"

definition last_n :: "nat \<Rightarrow> 'a list \<Rightarrow> 'a list" where
  \<comment> \<open>\<open>if len(xs) > n: xs = xs[-n:]\<close>.\<close>
  "last_n n xs = (if n < length xs then drop (length xs - n) xs else xs)"

definition py_strip :: "string \<Rightarrow> string" where
  "py_strip s = rev (dropWhile is_space (rev (dropWhile is_space s)))"

definition truthy :: "nat option \<Rightarrow> bool" where
  \<comment> \<open>The truth value of a click count.\<close>
  "truthy n = (case n of None \<Rightarrow> False | Some k \<Rightarrow> 0 < k)"

definition pk_variations :: "string list" where
  "pk_variations =
     [''i am pk and i like pizza hawaii'', ''i am pk and i love pizza hawaii'',
      ''im pk and i like pizza hawaii'', ''im pk and i love pizza hawaii'']"

definition message_clean :: "string \<Rightarrow> string" where
  \<comment> \<open>\<open>message.lower().replace(',', '').replace('.', '').replace('!', '')\<close>.\<close>
  "message_clean message =
     filter (\<lambda>c. c \<noteq> CHR '','' \<and> c \<noteq> CHR ''.'' \<and> c \<noteq> CHR ''!'') (py_lower message)"

definition error_reply ::
  "chat_div list option \<Rightarrow> string \<Rightarrow> chat_div \<Rightarrow> string \<Rightarrow> int \<times> int \<Rightarrow> history option
     \<Rightarrow> chat_result" where
  \<comment> \<open>The returns that append the message and one red line and hand back the current
      filter values and the stored history.\<close>
  "error_reply current_chat message line current_material current_year_range stored_history =
     \<lparr> chat_display = (case current_chat of None \<Rightarrow> [] | Some ds \<Rightarrow> ds) @ [You message, line],
       chat_input = [],
       material_value = current_material,
       year_value = current_year_range,
       history_store = stored_history \<rparr>"

definition no_year_column :: string where
  \<comment> \<open>The text of the \<open>KeyError\<close> that \<open>df['Year']\<close> raises on a frame without columns:
      the name in single quotes (character 39).\<close>
  "no_year_column = CHR 0x27 # ''Year'' @ [CHR 0x27]"

definition no_category_column :: string where
  \<comment> \<open>The text of the \<open>KeyError\<close> that \<open>current_filtered['Material_Category']\<close> raises
      on a frame without rows: the column is added to a frame with rows only
      (\<open>if not df.empty: df['Material_Category'] = ...\<close>).\<close>
  "no_category_column = CHR 0x27 # ''Material_Category'' @ [CHR 0x27]"

definition update_chat_with_filters ::
  "variant \<Rightarrow> frame \<Rightarrow> string option \<Rightarrow> (request \<Rightarrow> string + string)
     \<Rightarrow> nat option \<Rightarrow> nat option \<Rightarrow> string option \<Rightarrow> chat_div list option
     \<Rightarrow> string \<Rightarrow> int \<times> int \<Rightarrow> history option \<Rightarrow> chat_result" where
  \<comment> \<open>\<open>update_chat_with_filters\<close> of the variant \<open>v\<close>, in the frame \<open>df\<close>, with the key
      \<open>load_api_key\<close> returns and the text-generation service \<open>llm\<close>. On a frame without
      rows the column \<open>Material_Category\<close> is missing: the material step raises when the new
      material is not \<open>all\<close>, and the material statistics raise after the key is read.\<close>
  "update_chat_with_filters v df api_key llm n_clicks n_submit message current_chat
       current_material current_year_range stored_history =
     (let chat = (case current_chat of None \<Rightarrow> [] | Some ds \<Rightarrow> ds)
      in case message of
        None \<Rightarrow>
          \<lparr> chat_display = chat, chat_input = [], material_value = current_material,
            year_value = current_year_range, history_store = stored_history \<rparr>
      | Some msg \<Rightarrow>
          if \<not> (truthy n_clicks \<or> truthy n_submit)
          then \<lparr> chat_display = chat, chat_input = [], material_value = current_material,
                 year_value = current_year_range, history_store = stored_history \<rparr>
          else if msg = []
          then \<lparr> chat_display = chat, chat_input = [], material_value = current_material,
                 year_value = current_year_range, history_store = stored_history \<rparr>
          else if v = MapDashboard \<and> py_any_in pk_variations (message_clean msg)
          then \<lparr> chat_display = last_n 20 (chat @ [You msg, AIPrank]), chat_input = [],
                 material_value = current_material, year_value = current_year_range,
                 history_store = stored_history \<rparr>
          else
            (case apply_commands df (parse_filter_command v msg) current_material
                    current_year_range of
               (new_material, new_year_range, filter_message) \<Rightarrow>
                 (case df of
                    NoColumns \<Rightarrow>
                      error_reply current_chat msg (AIError (take 50 no_year_column))
                        current_material current_year_range stored_history
                  | Frame rows \<Rightarrow>
                      if rows = [] \<and> new_material \<noteq> ''all''
                      then error_reply current_chat msg (AIError (take 50 no_category_column))
                             current_material current_year_range stored_history
                      else
                      (let current_filtered = material_step new_material (year_step new_year_range rows)
                       in if api_key = None \<or> api_key = Some []
                          then error_reply current_chat msg AIUnavailable
                                 current_material current_year_range stored_history
                          else if rows = []
                          then error_reply current_chat msg (AIError (take 50 no_category_column))
                                 current_material current_year_range stored_history
                          else
                            (let history =
                                   last_n 6 ((case stored_history of None \<Rightarrow> [] | Some h \<Rightarrow> h)
                                             @ [(User, msg)]);
                                 answer =
                                   llm \<lparr> req_rows = current_filtered, req_material = new_material,
                                         req_years = new_year_range, req_history = history,
                                         req_filter_message = filter_message, req_message = msg \<rparr>
                             in case v of
                                  MapDashboard \<Rightarrow>
                                    (case answer of
                                       Inl e \<Rightarrow>
                                         error_reply current_chat msg (AIError (take 50 e))
                                           current_material current_year_range stored_history
                                     | Inr content \<Rightarrow>
                                         \<lparr> chat_display =
                                             last_n 20 (chat @ [You msg,
                                               AI filter_message (Reply (py_strip content))]),
                                           chat_input = [],
                                           material_value = new_material,
                                           year_value = new_year_range,
                                           history_store =
                                             Some (last_n 6
                                               (history @ [(Assistant, py_strip content)])) \<rparr>)
                                | App \<Rightarrow>
                                    \<lparr> chat_display =
                                        last_n 20 (chat @ [You msg,
                                          AI filter_message
                                            (case answer of
                                               Inl e \<Rightarrow> CallFailed e
                                             | Inr content \<Rightarrow> Reply (py_strip content))]),
                                      chat_input = [],
                                      material_value = new_material,
                                      year_value = new_year_range,
                                      history_store = Some (last_n 6 history) \<rparr>)))))"

section \<open>Sample data\<close>

text \<open>Catalog rows, a filter state and the \<open>prop_id\<close> of a click, used to run the functions above.\<close>

definition sample_house :: project where
  "sample_house =
     \<lparr> Project = ''Alpha House'', Year = 2020, Country = ''Germany'', City = None,
       Material = ''Printed concrete'', Organization = ''ACME'', Latitude = None,
       Longitude = Some 13, Description = None, Link = None,
       Material_Category = ''Concrete/Cement'' \<rparr>"

definition sample_bridge :: project where
  "sample_bridge =
     \<lparr> Project = ''Beta Bridge'', Year = 2018, Country = ''Spain'', City = Some ''Madrid'',
       Material = ''Steel metal'', Organization = ''IAAC'', Latitude = Some 40,
       Longitude = Some (-3), Description = None, Link = None,
       Material_Category = ''Metal'' \<rparr>"

definition sample_state :: filter_state where
  "sample_state = \<lparr> material_filter = ''all'', year_range = (2000, 2030), search_term = None \<rparr>"

definition sample_gaia :: project where
  \<open>sample_gaia =
     \<lparr> Project = ''"Gaia" by W.A.S.P.'', Year = 2018, Country = ''Italy'',
       City = Some ''Massa Lombarda'', Material = ''Raw earth and clay'', Organization = ''WASP'',
       Latitude = Some 44, Longitude = Some 12, Description = None, Link = None,
       Material_Category = ''Ceramics/Clay'' \<rparr>\<close>

definition gaia_item_id :: string where
  \<comment> \<open>The \<open>prop_id\<close> of a click on the list item of \<^term>\<open>sample_gaia\<close>: the identifier
      of the item as JSON text, in which the quotes of the name are written with a backslash
      (character 92) before them, followed by \<open>.n_clicks\<close>.\<close>
  \<open>gaia_item_id =
     ''{"index":0,"project_name":"'' @ [CHR 0x5C] @ ''"Gaia'' @ [CHR 0x5C] @
     ''" by W.A.S.P.","type":"project-item"}.n_clicks''\<close>

section \<open>Properties of the text functions\<close>

lemma starts_with_iff: "starts_with n s \<longleftrightarrow> (\<exists>q. s = n @ q)"
  by (induction n s rule: starts_with.induct) auto

lemma py_in_iff: "py_in n s \<longleftrightarrow> (\<exists>p q. s = p @ n @ q)"
proof (induction s)
  case Nil
  then show ?case by simp
next
  case (Cons c cs)
  show ?case
  proof
    assume "py_in n (c # cs)"
    then consider "starts_with n (c # cs)" | "py_in n cs" by auto
    then show "\<exists>p q. c # cs = p @ n @ q"
    proof cases
      case 1
      then obtain q where "c # cs = n @ q" using starts_with_iff by blast
      then have "c # cs = [] @ n @ q" by simp
      then show ?thesis by blast
    next
      case 2
      then obtain p q where "cs = p @ n @ q" using Cons.IH by blast
      then have "c # cs = (c # p) @ n @ q" by simp
      then show ?thesis by blast
    qed
  next
    assume "\<exists>p q. c # cs = p @ n @ q"
    then obtain p q where pq: "c # cs = p @ n @ q" by blast
    show "py_in n (c # cs)"
    proof (cases p)
      case Nil
      with pq have "starts_with n (c # cs)" using starts_with_iff by auto
      then show ?thesis by simp
    next
      case (Cons a p')
      with pq have "cs = p' @ n @ q" by simp
      then have "py_in n cs" using Cons.IH by blast
      then show ?thesis by simp
    qed
  qed
qed

section \<open>Material classifier: first match wins\<close>

text \<open>
  Claim C9. For every text, \<open>categorize_material\<close> returns one of the six categories, and
  which one is decided by the first test that succeeds, in the order concrete or cement,
  ceramic or clay, composite, plastic or polymer, metal; each test asks whether the keyword
  occurs somewhere in the lowercased text. When no test succeeds the result is
  Other/Experimental. The function is total: it has no error result.
\<close>

theorem categorize_material_first_match:
  "categorize_material m \<in> set categories \<and>
   categorize_material m =
     (if (\<exists>p q. py_lower m = p @ ''concrete'' @ q) \<or> (\<exists>p q. py_lower m = p @ ''cement'' @ q)
      then ''Concrete/Cement''
      else if (\<exists>p q. py_lower m = p @ ''ceramic'' @ q) \<or> (\<exists>p q. py_lower m = p @ ''clay'' @ q)
      then ''Ceramics/Clay''
      else if (\<exists>p q. py_lower m = p @ ''composite'' @ q) then ''Composite''
      else if (\<exists>p q. py_lower m = p @ ''plastic'' @ q) \<or> (\<exists>p q. py_lower m = p @ ''polymer'' @ q)
      then ''Plastic/Polymer''
      else if (\<exists>p q. py_lower m = p @ ''metal'' @ q) then ''Metal''
      else ''Other/Experimental'')"
proof
  show "categorize_material m \<in> set categories"
    by (simp add: categorize_material_def categories_def Let_def)
  show "categorize_material m = (if (\<exists>p q. py_lower m = p @ ''concrete'' @ q) \<or> (\<exists>p q. py_lower m = p @ ''cement'' @ q)
      then ''Concrete/Cement''
      else if (\<exists>p q. py_lower m = p @ ''ceramic'' @ q) \<or> (\<exists>p q. py_lower m = p @ ''clay'' @ q)
      then ''Ceramics/Clay''
      else if (\<exists>p q. py_lower m = p @ ''composite'' @ q) then ''Composite''
      else if (\<exists>p q. py_lower m = p @ ''plastic'' @ q) \<or> (\<exists>p q. py_lower m = p @ ''polymer'' @ q)
      then ''Plastic/Polymer''
      else if (\<exists>p q. py_lower m = p @ ''metal'' @ q) then ''Metal''
      else ''Other/Experimental'')"
    by (simp add: categorize_material_def py_any_in_def Let_def py_in_iff del: append_eq_Cons_conv Cons_eq_append_conv)
qed

theorem categorize_material_first_match_witness:
  "categorize_material ''Clay and METAL mix'' = ''Ceramics/Clay'' \<and>
   categorize_material ''Clay and METAL mix'' \<in> set categories"
proof -
  have lw: "py_lower ''Clay and METAL mix'' = ''clay and metal mix''" by code_simp
  have a: "\<not> (\<exists>p q. ''clay and metal mix'' = p @ ''concrete'' @ q)"
    using py_in_iff [of "''concrete''" "''clay and metal mix''"] by simp
  have b: "\<not> (\<exists>p q. ''clay and metal mix'' = p @ ''cement'' @ q)"
    using py_in_iff [of "''cement''" "''clay and metal mix''"] by simp
  have c: "\<exists>p q. ''clay and metal mix'' = p @ ''clay'' @ q"
    using py_in_iff [of "''clay''" "''clay and metal mix''"] by simp
  from categorize_material_first_match [of "''Clay and METAL mix''"] a b c
  show ?thesis unfolding lw by (simp add: categories_def del: append_eq_Cons_conv Cons_eq_append_conv)
qed

section \<open>Command parser: the range patterns\<close>

lemma digits4_Some: "digits4 s = Some (x, r) \<Longrightarrow> four_digits x"
  by (auto simp: digits4_def four_digits_def split: if_splits)

lemma match_from_to_Some: "match_from_to s = Some (x, y) \<Longrightarrow> four_digits x \<and> four_digits y"
  unfolding match_from_to_def
  by (auto split: option.splits prod.splits dest: digits4_Some)

lemma match_dash_Some:
  assumes "match_dash v s = Some (x, y)"
  shows "four_digits x \<and> four_digits y"
proof -
  from assms obtain r1 where d1: "digits4 s = Some (x, r1)"
    unfolding match_dash_def by (cases "digits4 s") (auto split: list.splits if_splits option.splits)
  with assms obtain c r2 where r: "dropWhile is_space r1 = c # r2"
    unfolding match_dash_def by (cases "dropWhile is_space r1") auto
  with d1 assms obtain r3 where "digits4 (dropWhile is_space r2) = Some (y, r3)"
    unfolding match_dash_def by (cases "digits4 (dropWhile is_space r2)") (auto split: if_splits)
  with d1 show ?thesis using digits4_Some by blast
qed

lemma match_to_Some: "match_to s = Some (x, y) \<Longrightarrow> four_digits x \<and> four_digits y"
  unfolding match_to_def
  by (auto split: option.splits prod.splits dest: digits4_Some)

lemma re_search_Some: "re_search m s = Some r \<Longrightarrow> \<exists>t. m t = Some r"
  by (induction s) (auto split: option.splits)


lemma first_range_match_Some:
  assumes "first_range_match (range_patterns v) s = Some (x, y)"
  shows "four_digits x \<and> four_digits y"
proof (cases "re_search match_from_to s")
  case (Some r)
  with assms have "re_search match_from_to s = Some (x, y)"
    by (simp add: range_patterns_def)
  then obtain t where "match_from_to t = Some (x, y)" by (rule re_search_Some [THEN exE])
  then show ?thesis by (rule match_from_to_Some)
next
  case n1: None
  show ?thesis
  proof (cases "re_search (match_dash v) s")
    case (Some r)
    with assms n1 have "re_search (match_dash v) s = Some (x, y)"
      by (simp add: range_patterns_def)
    then obtain t where "(match_dash v) t = Some (x, y)" by (rule re_search_Some [THEN exE])
  then show ?thesis by (rule match_dash_Some)
  next
    case None
    with assms n1 have "re_search match_to s = Some (x, y)"
      by (simp add: range_patterns_def split: option.splits)
    then obtain t where "match_to t = Some (x, y)" by (rule re_search_Some [THEN exE])
  then show ?thesis by (rule match_to_Some)
  qed
qed

lemma digit_val_range: "is_digit c \<Longrightarrow> 0 \<le> digit_val c \<and> digit_val c \<le> 9"
  by (auto simp: is_digit_def digit_val_def Let_def)

lemma length4E:
  assumes "length x = 4"
  obtains a b c d where "x = [a, b, c, d]"
proof -
  from assms obtain a x1 where 1: "x = a # x1" "length x1 = 3" by (cases x) auto
  then obtain b x2 where 2: "x1 = b # x2" "length x2 = 2" by (cases x1) auto
  then obtain c x3 where 3: "x2 = c # x3" "length x3 = 1" by (cases x2) auto
  then obtain d where 4: "x3 = [d]" by (cases x3) auto
  from 1 2 3 4 that show thesis by simp
qed

lemma py_int_four_digits:
  assumes "four_digits x"
  shows "0 \<le> py_int x \<and> py_int x \<le> 9999"
proof -
  from assms have "length x = 4" by (simp add: four_digits_def)
  then obtain a b c d where x: "x = [a, b, c, d]" by (rule length4E)
  with assms have "is_digit a" "is_digit b" "is_digit c" "is_digit d"
    by (simp_all add: four_digits_def)
  then have "0 \<le> digit_val a \<and> digit_val a \<le> 9" "0 \<le> digit_val b \<and> digit_val b \<le> 9"
    "0 \<le> digit_val c \<and> digit_val c \<le> 9" "0 \<le> digit_val d \<and> digit_val d \<le> 9"
    using digit_val_range by blast+
  then show ?thesis unfolding x py_int_def by simp
qed

text \<open>
  Claim C5, as the code has it. When one of the three range patterns is found in the
  lowercased message, each of the two groups is a string of exactly four decimal digits, so
  its value lies between 0 and 9999, and \<open>year_range\<close> is the pair of the smaller and the
  larger value: its first component is at most its second. The patterns ask for four digits
  and for nothing more; only the fallback for single tokens asks for \<open>19xx\<close> or \<open>20xx\<close>.
\<close>

theorem range_pattern_year_range:
  assumes "first_range_match (range_patterns v) (py_lower message) = Some (x, y)"
  shows "length x = 4 \<and> list_all is_digit x \<and> length y = 4 \<and> list_all is_digit y \<and>
         0 \<le> py_int x \<and> py_int x \<le> 9999 \<and> 0 \<le> py_int y \<and> py_int y \<le> 9999 \<and>
         cmd_year_range (parse_filter_command v message)
           = Some (min (py_int x) (py_int y), max (py_int x) (py_int y)) \<and>
         min (py_int x) (py_int y) \<le> max (py_int x) (py_int y)"
proof -
  from first_range_match_Some [OF assms] have fd: "four_digits x" "four_digits y" by simp_all
  have yr: "cmd_year_range (parse_filter_command v message)
              = Some (min (py_int x) (py_int y), max (py_int x) (py_int y))"
    using assms by (simp add: parse_filter_command_def parse_year_range_def)
  from fd py_int_four_digits have "0 \<le> py_int x \<and> py_int x \<le> 9999" "0 \<le> py_int y \<and> py_int y \<le> 9999"
    by blast+
  with fd yr show ?thesis by (simp add: four_digits_def)
qed
theorem range_pattern_year_range_witness:
  "first_range_match (range_patterns MapDashboard) (py_lower ''Between 2023 AND 2019'')
     = Some (''2023'', ''2019'') \<and>
   cmd_year_range (parse_filter_command MapDashboard ''Between 2023 AND 2019'') = Some (2019, 2023)"
proof -
  have m: "first_range_match (range_patterns MapDashboard) (py_lower ''Between 2023 AND 2019'')
             = Some (''2023'', ''2019'')"
    by code_simp
  have "py_int ''2023'' = 2023" "py_int ''2019'' = 2019" by code_simp+
  with range_pattern_year_range [OF m] m show ?thesis by simp
qed

text \<open>
  The bound 1900 to 2099 of the claim fails: in \<open>years 1000-3000\<close> the second pattern
  matches and the year range becomes 1000 to 3000, in both variants.
\<close>

theorem range_pattern_1900_2099_counterexample:
  "first_range_match (range_patterns MapDashboard) (py_lower ''years 1000-3000'')
     = Some (''1000'', ''3000'') \<and>
   first_range_match (range_patterns App) (py_lower ''years 1000-3000'')
     = Some (''1000'', ''3000'') \<and>
   cmd_year_range (parse_filter_command MapDashboard ''years 1000-3000'') = Some (1000, 3000) \<and>
   cmd_year_range (parse_filter_command App ''years 1000-3000'') = Some (1000, 3000) \<and>
   py_int ''1000'' < 1900 \<and> 2099 < py_int ''3000''"
  by code_simp

section \<open>Filter engine: subset and monotone narrowing\<close>

lemma filter_implies_subseq:
  assumes "\<And>x. P x \<Longrightarrow> Q x"
  shows "subseq (filter P xs) (filter Q xs)"
proof -
  have "filter P xs = filter P (filter Q xs)"
    using assms by (induction xs) auto
  then show ?thesis by (metis subseq_filter_left)
qed

lemma subseq_set_subset: "subseq xs ys \<Longrightarrow> set xs \<subseteq> set ys"
  by (induction rule: list_emb.induct) auto

lemma subseq_facts: "subseq xs ys \<Longrightarrow> subseq xs ys \<and> set xs \<subseteq> set ys \<and> length xs \<le> length ys"
  by (simp add: subseq_set_subset list_emb_length)

lemma year_step_mono:
  assumes "fst yr \<le> fst yr'" "snd yr' \<le> snd yr"
  shows "subseq (year_step yr' rows) (year_step yr rows)"
  unfolding year_step_def using assms by (intro filter_implies_subseq) auto

lemma material_step_subseq: "subseq xs ys \<Longrightarrow> subseq (material_step m xs) (material_step m ys)"
  by (simp add: material_step_def)

lemma material_step_all: "subseq (material_step m rows) (material_step ''all'' rows)"
  by (simp add: material_step_def)

lemma search_step_subseq:
  assumes "subseq xs ys" "search_step engine city_text t xs = Some rs'"
  shows "\<exists>rs. search_step engine city_text t ys = Some rs \<and> subseq rs' rs"
  using assms by (auto simp: search_step_def split: option.splits if_splits)

lemma search_step_narrows:
  assumes "search_step engine city_text t rows = Some rs"
  shows "subseq rs rows"
  using assms by (auto simp: search_step_def split: option.splits if_splits)

lemma search_step_skipped:
  "t = None \<or> t = Some [] \<Longrightarrow> search_step engine city_text t rows = Some rows"
  by (auto simp: search_step_def)

text \<open>
  Claim C1. Whatever regular-expression engine the search step uses, and whether the
  \<open>City\<close> column holds text or not, a result of the filter engine is a subsequence of the
  catalog: it holds rows of the catalog only, in the catalog's
  order, and no more of them. Narrowing is monotone. With the catalog and the other fields
  fixed, the result under a year range inside the current one, the result under a material
  category where the current one is \<open>all\<close>, and the result under a search text where
  there is none now, are each a subsequence of the current result, which exists whenever
  the narrowed one does.
\<close>

theorem filtered_df_subset_monotone:
  "(\<forall>rs. filtered_df engine city_text df st = Some rs \<longrightarrow>
        subseq rs df \<and> set rs \<subseteq> set df \<and> length rs \<le> length df) \<and>
   (\<forall>yr rs'. fst (year_range st) \<le> fst yr \<and> snd yr \<le> snd (year_range st) \<and>
        filtered_df engine city_text df (st\<lparr>year_range := yr\<rparr>) = Some rs' \<longrightarrow>
        (\<exists>rs. filtered_df engine city_text df st = Some rs \<and>
              subseq rs' rs \<and> set rs' \<subseteq> set rs \<and> length rs' \<le> length rs)) \<and>
   (\<forall>m rs'. material_filter st = ''all'' \<and>
        filtered_df engine city_text df (st\<lparr>material_filter := m\<rparr>) = Some rs' \<longrightarrow>
        (\<exists>rs. filtered_df engine city_text df st = Some rs \<and>
              subseq rs' rs \<and> set rs' \<subseteq> set rs \<and> length rs' \<le> length rs)) \<and>
   (\<forall>t rs'. (search_term st = None \<or> search_term st = Some []) \<and>
        filtered_df engine city_text df (st\<lparr>search_term := Some t\<rparr>) = Some rs' \<longrightarrow>
        (\<exists>rs. filtered_df engine city_text df st = Some rs \<and>
              subseq rs' rs \<and> set rs' \<subseteq> set rs \<and> length rs' \<le> length rs))"
proof (intro conjI allI impI)
  fix rs assume a: "filtered_df engine city_text df st = Some rs"
  let ?ms = "material_step (material_filter st) (year_step (year_range st) df)"
  from a have "subseq rs ?ms"
    unfolding filtered_df_def by (rule search_step_narrows)
  moreover have "subseq ?ms df"
    by (simp add: material_step_def year_step_def)
  ultimately have s: "subseq rs df" by (rule subseq_order.order_trans)
  from subseq_facts [OF s]
  show "subseq rs df" "set rs \<subseteq> set df" "length rs \<le> length df" by simp_all
next
  fix yr rs'
  assume a: "fst (year_range st) \<le> fst yr \<and> snd yr \<le> snd (year_range st) \<and>
        filtered_df engine city_text df (st\<lparr>year_range := yr\<rparr>) = Some rs'"
  then have "subseq (year_step yr df) (year_step (year_range st) df)"
    by (intro year_step_mono) simp_all
  then have "subseq (material_step (material_filter st) (year_step yr df))
               (material_step (material_filter st) (year_step (year_range st) df))"
    by (rule material_step_subseq)
  moreover from a have "search_step engine city_text (search_term st)
       (material_step (material_filter st) (year_step yr df)) = Some rs'"
    by (simp add: filtered_df_def)
  ultimately obtain rs where "filtered_df engine city_text df st = Some rs" "subseq rs' rs"
    unfolding filtered_df_def using search_step_subseq by blast
  with subseq_facts [of rs' rs]
  show "\<exists>rs. filtered_df engine city_text df st = Some rs \<and>
              subseq rs' rs \<and> set rs' \<subseteq> set rs \<and> length rs' \<le> length rs" by blast
next
  fix m rs'
  assume a: "material_filter st = ''all'' \<and>
        filtered_df engine city_text df (st\<lparr>material_filter := m\<rparr>) = Some rs'"
  have "subseq (material_step m (year_step (year_range st) df))
               (material_step ''all'' (year_step (year_range st) df))"
    by (rule material_step_all)
  moreover from a have "search_step engine city_text (search_term st)
       (material_step m (year_step (year_range st) df)) = Some rs'"
    by (simp add: filtered_df_def)
  ultimately obtain rs where "filtered_df engine city_text df st = Some rs" "subseq rs' rs"
    unfolding filtered_df_def using search_step_subseq a by metis
  with subseq_facts [of rs' rs]
  show "\<exists>rs. filtered_df engine city_text df st = Some rs \<and>
              subseq rs' rs \<and> set rs' \<subseteq> set rs \<and> length rs' \<le> length rs" by blast
next
  fix t rs'
  assume a: "(search_term st = None \<or> search_term st = Some []) \<and>
        filtered_df engine city_text df (st\<lparr>search_term := Some t\<rparr>) = Some rs'"
  let ?ms = "material_step (material_filter st) (year_step (year_range st) df)"
  from a have "search_step engine city_text (Some t) ?ms = Some rs'"
    by (simp add: filtered_df_def)
  then have s: "subseq rs' ?ms" by (rule search_step_narrows)
  from a have "filtered_df engine city_text df st = Some ?ms"
    unfolding filtered_df_def by (intro search_step_skipped) simp
  with s subseq_facts [of rs' ?ms]
  show "\<exists>rs. filtered_df engine city_text df st = Some rs \<and>
              subseq rs' rs \<and> set rs' \<subseteq> set rs \<and> length rs' \<le> length rs" by blast
qed

theorem filtered_df_subset_monotone_witness:
  "\<forall>engine.
     filtered_df (literal_on_plain engine) True [sample_house, sample_bridge] sample_state
       = Some [sample_house, sample_bridge] \<and>
     set [sample_house, sample_bridge] \<subseteq> set [sample_house, sample_bridge] \<and>
     fst (year_range sample_state) \<le> 2019 \<and> 2025 \<le> snd (year_range sample_state) \<and>
     filtered_df (literal_on_plain engine) True [sample_house, sample_bridge]
         (sample_state\<lparr>year_range := (2019, 2025)\<rparr>)
       = Some [sample_house] \<and>
     subseq [sample_house] [sample_house, sample_bridge] \<and>
     material_filter sample_state = ''all'' \<and>
     filtered_df (literal_on_plain engine) True [sample_house, sample_bridge]
         (sample_state\<lparr>material_filter := ''Metal''\<rparr>)
       = Some [sample_bridge] \<and>
     subseq [sample_bridge] [sample_house, sample_bridge] \<and>
     search_term sample_state = None \<and>
     filtered_df (literal_on_plain engine) True [sample_house, sample_bridge]
         (sample_state\<lparr>search_term := Some ''MAD''\<rparr>)
       = Some [sample_bridge] \<and>
     length [sample_bridge] \<le> length [sample_house, sample_bridge]"
proof
  fix engine :: regex_engine
  let ?cat = "[sample_house, sample_bridge]"
  let ?e = "literal_on_plain engine"
  have w0: "filtered_df ?e True ?cat sample_state = Some ?cat"
    by code_simp
  have w1: "filtered_df ?e True ?cat (sample_state\<lparr>year_range := (2019, 2025)\<rparr>)
              = Some [sample_house]"
    by code_simp
  have w2: "filtered_df ?e True ?cat (sample_state\<lparr>material_filter := ''Metal''\<rparr>)
              = Some [sample_bridge]"
    by code_simp
  have w3: "filtered_df ?e True ?cat (sample_state\<lparr>search_term := Some ''MAD''\<rparr>)
              = Some [sample_bridge]"
    by code_simp
  have st: "fst (year_range sample_state) \<le> 2019" "2025 \<le> snd (year_range sample_state)"
    "material_filter sample_state = ''all''" "search_term sample_state = None"
    by (simp_all add: sample_state_def)
  note mono = filtered_df_subset_monotone [of ?e True ?cat sample_state]
  from mono w0 have a: "set ?cat \<subseteq> set ?cat" by blast
  from mono have "fst (year_range sample_state) \<le> fst (2019::int, 2025::int) \<and>
        snd (2019::int, 2025::int) \<le> snd (year_range sample_state) \<and>
        filtered_df ?e True ?cat (sample_state\<lparr>year_range := (2019, 2025)\<rparr>) = Some [sample_house]
        \<longrightarrow> (\<exists>rs. filtered_df ?e True ?cat sample_state = Some rs \<and> subseq [sample_house] rs \<and>
              set [sample_house] \<subseteq> set rs \<and> length [sample_house] \<le> length rs)"
    by blast
  with st w1 w0 have b: "subseq [sample_house] ?cat" by simp
  from mono have "material_filter sample_state = ''all'' \<and>
        filtered_df ?e True ?cat (sample_state\<lparr>material_filter := ''Metal''\<rparr>) = Some [sample_bridge]
        \<longrightarrow> (\<exists>rs. filtered_df ?e True ?cat sample_state = Some rs \<and> subseq [sample_bridge] rs \<and>
              set [sample_bridge] \<subseteq> set rs \<and> length [sample_bridge] \<le> length rs)"
    by blast
  with st w2 w0 have c: "subseq [sample_bridge] ?cat" by simp
  from mono have "(search_term sample_state = None \<or> search_term sample_state = Some []) \<and>
        filtered_df ?e True ?cat (sample_state\<lparr>search_term := Some ''MAD''\<rparr>) = Some [sample_bridge]
        \<longrightarrow> (\<exists>rs. filtered_df ?e True ?cat sample_state = Some rs \<and> subseq [sample_bridge] rs \<and>
              set [sample_bridge] \<subseteq> set rs \<and> length [sample_bridge] \<le> length rs)"
    by blast
  with st w3 w0 have d: "length [sample_bridge] \<le> length ?cat" by simp
  from w0 w1 w2 w3 st a b c d
  show "filtered_df ?e True ?cat sample_state = Some ?cat \<and>
     set ?cat \<subseteq> set ?cat \<and>
     fst (year_range sample_state) \<le> 2019 \<and> 2025 \<le> snd (year_range sample_state) \<and>
     filtered_df ?e True ?cat (sample_state\<lparr>year_range := (2019, 2025)\<rparr>) = Some [sample_house] \<and>
     subseq [sample_house] ?cat \<and>
     material_filter sample_state = ''all'' \<and>
     filtered_df ?e True ?cat (sample_state\<lparr>material_filter := ''Metal''\<rparr>) = Some [sample_bridge] \<and>
     subseq [sample_bridge] ?cat \<and>
     search_term sample_state = None \<and>
     filtered_df ?e True ?cat (sample_state\<lparr>search_term := Some ''MAD''\<rparr>) = Some [sample_bridge] \<and>
     length [sample_bridge] \<le> length ?cat"
    by blast
qed

section \<open>Filter engine: the search step\<close>






section \<open>View synthesizer: the histogram\<close>

lemma sum_indicator_distinct:
  assumes "distinct ys" "x \<in> set ys"
  shows "(\<Sum>y\<leftarrow>ys. if x = y then 1 else 0) = (1::nat)"
  using assms by (induction ys) auto

lemma group_sizes_sum:
  assumes "distinct ys" "f ` set rows \<subseteq> set ys"
  shows "(\<Sum>y\<leftarrow>ys. length (filter (\<lambda>r. f r = y) rows)) = length rows"
  using assms(2)
proof (induction rows)
  case Nil
  then show ?case by simp
next
  case (Cons r rs)
  have "(\<Sum>y\<leftarrow>ys. length (filter (\<lambda>r. f r = y) (r # rs)))
          = (\<Sum>y\<leftarrow>ys. (if f r = y then 1 else 0) + length (filter (\<lambda>r. f r = y) rs))"
    by (intro arg_cong [where f = sum_list] map_cong) auto
  also have "\<dots> = (\<Sum>y\<leftarrow>ys. if f r = y then 1 else 0)
                   + (\<Sum>y\<leftarrow>ys. length (filter (\<lambda>r. f r = y) rs))"
    by (simp add: sum_list_addf)
  also have "\<dots> = 1 + length rs"
    using Cons sum_indicator_distinct [OF assms(1), of "f r"] by simp
  finally show ?case by simp
qed

lemma timeline_years: "map fst (timeline_data rows) = sort (remdups (map Year rows))"
  by (simp add: timeline_data_def comp_def)

lemma timeline_counts:
  "map snd (timeline_data rows)
     = map (\<lambda>y. length (filter (\<lambda>r. Year r = y) rows)) (sort (remdups (map Year rows)))"
  by (simp add: timeline_data_def comp_def)

text \<open>
  Claim C7. For every filtered row set, the counts of the histogram add up to the number of
  filtered rows, its years are strictly ascending, so no year occurs twice, they are exactly
  the years of the filtered rows, and no entry has the count zero: a year without a filtered project has
  no entry.
\<close>

theorem timeline_histogram:
  "sum_list (map snd (timeline_fig rows)) = length rows \<and>
   sorted_wrt (<) (map fst (timeline_fig rows)) \<and>
   distinct (map fst (timeline_fig rows)) \<and>
   set (map fst (timeline_fig rows)) = Year ` set rows \<and>
   0 \<notin> set (map snd (timeline_fig rows))"
proof -
  let ?ys = "sort (remdups (map Year rows))"
  have fig: "timeline_fig rows = timeline_data rows"
    by (simp add: timeline_fig_def timeline_data_def)
  have d: "distinct ?ys" and s: "set ?ys = Year ` set rows" by simp_all
  have "sum_list (map snd (timeline_data rows)) = length rows"
    unfolding timeline_counts using d s by (intro group_sizes_sum) simp_all
  moreover have "sorted_wrt (<) (map fst (timeline_data rows))"
    unfolding timeline_years using d by (simp add: strict_sorted_iff)
  moreover have "distinct (map fst (timeline_data rows))"
    unfolding timeline_years by (rule d)
  moreover have "set (map fst (timeline_data rows)) = Year ` set rows"
    unfolding timeline_years by (rule s)
  moreover have "0 \<notin> set (map snd (timeline_data rows))"
  proof
    assume "0 \<in> set (map snd (timeline_data rows))"
    then have "0 \<in> (\<lambda>y. length (filter (\<lambda>r. Year r = y) rows)) ` set ?ys"
      unfolding timeline_counts by (simp only: set_map)
    then obtain y where y: "y \<in> set ?ys" "length (filter (\<lambda>r. Year r = y) rows) = 0"
      by (metis (mono_tags, lifting) imageE)
    from y(1) s obtain r where "r \<in> set rows" "Year r = y" by auto
    then have "filter (\<lambda>r. Year r = y) rows \<noteq> []" by (auto simp: filter_empty_conv)
    with y(2) show False by simp
  qed
  ultimately show ?thesis unfolding fig by blast
qed

theorem timeline_histogram_witness:
  "timeline_fig [sample_house, sample_bridge, sample_house] = [(2018, 1), (2020, 2)] \<and>
   sum_list (map snd [(2018::int, 1::nat), (2020, 2)]) = length [sample_house, sample_bridge, sample_house] \<and>
   sorted_wrt (<) (map fst [(2018::int, 1::nat), (2020, 2)])"
proof -
  have e: "timeline_fig [sample_house, sample_bridge, sample_house] = [(2018, 1), (2020, 2)]"
    by code_simp
  from timeline_histogram [of "[sample_house, sample_bridge, sample_house]"]
  show ?thesis unfolding e by simp
qed

section \<open>View synthesizer: the markers\<close>

lemma timeline_data_sum: "sum_list (map snd (timeline_data rows)) = length rows"
  unfolding timeline_counts by (intro group_sizes_sum) simp_all

lemma markers_app: "markers (map_fig App rows sel) = map marker_of rows"
  by (simp add: map_fig_def markers_def)

lemma markers_map_dashboard:
  "markers (map_fig MapDashboard rows sel) =
     map marker_of (filter (\<lambda>r. Project r \<noteq> sel) rows) @
     (if sel \<noteq> [] then map marker_of (filter (\<lambda>r. Project r = sel) rows) else [])"
proof (cases "rows = []")
  case True
  then show ?thesis by (simp add: map_fig_def markers_def)
next
  case False
  then show ?thesis by (simp add: map_fig_def markers_def Let_def)
qed

lemma mset_split_by_name:
  "mset (map f (filter (\<lambda>r. Project r \<noteq> sel) rows)) +
   mset (map f (filter (\<lambda>r. Project r = sel) rows)) = mset (map f rows)"
  by (induction rows) auto

lemma markers_mset:
  assumes "\<forall>r \<in> set rows. Project r \<noteq> []"
  shows "mset (markers (map_fig v rows sel)) = mset (map marker_of rows)"
proof (cases v)
  case App
  then show ?thesis by (simp add: markers_app)
next
  case MapDashboard
  show ?thesis
  proof (cases "sel = []")
    case True
    with assms have "filter (\<lambda>r. Project r \<noteq> sel) rows = rows"
      by (simp add: filter_id_conv)
    with True MapDashboard show ?thesis by (simp add: markers_map_dashboard)
  next
    case False
    have "mset (map marker_of (filter (\<lambda>r. Project r \<noteq> sel) rows)) +
          mset (map marker_of (filter (\<lambda>r. Project r = sel) rows)) = mset (map marker_of rows)"
      by (rule mset_split_by_name)
    with False MapDashboard show ?thesis by (simp add: markers_map_dashboard)
  qed
qed

lemma update_dashboard_views:
  assumes "catalog \<noteq> []" and "filtered_df engine city_text catalog st = Some rows"
  shows "update_dashboard engine city_text (Frame catalog) st
           = Some (Views (map_fig App rows []) (timeline_fig rows) (project_list App rows []))"
    and "update_dashboard_with_selection engine city_text json_name (Frame catalog) triggered st
             map_click_data current_selected
           = Some (Views
                     (map_fig MapDashboard rows
                        (update_selection json_name triggered map_click_data current_selected))
                     (timeline_fig rows)
                     (project_list MapDashboard rows
                        (update_selection json_name triggered map_click_data current_selected)),
                   update_selection json_name triggered map_click_data current_selected)"
  using assms
  by (simp_all add: update_dashboard_def update_dashboard_with_selection_def df_empty_def Let_def)

lemma markers_with_coordinates:
  "filter (\<lambda>m. lat m \<noteq> None \<and> lon m \<noteq> None) (map marker_of rows)
     = map marker_of (filter (\<lambda>r. Latitude r \<noteq> None \<and> Longitude r \<noteq> None) rows)"
  by (induction rows) (simp_all add: marker_of_def)

lemma project_list_names:
  "map item_name (filter (\<lambda>i. i \<noteq> Placeholder) (project_list v rows sel)) = map Project rows"
  by (simp add: project_list_def comp_def filter_map)

text \<open>
  Claim C8, as the code has it. Project names are never empty in a loaded catalog. For every
  such filtered row set the traces of the map hold exactly one entry for each filtered row,
  carrying the latitude and longitude of the row as they are, missing or not: the code
  drops no row for a missing coordinate, and whether a point without a coordinate is drawn
  is left to the plotting library. The entries with both coordinates are exactly those of
  the rows with both coordinates, one for each. Every filtered row is counted in the
  histogram and has its item in the project list.
\<close>

theorem map_fig_markers:
  assumes "\<forall>r \<in> set rows. Project r \<noteq> []"
  shows "mset (markers (map_fig v rows new_selected)) = mset (map marker_of rows) \<and>
         length (markers (map_fig v rows new_selected)) = length rows \<and>
         mset (filter (\<lambda>m. lat m \<noteq> None \<and> lon m \<noteq> None)
                 (markers (map_fig v rows new_selected)))
           = mset (map marker_of
                     (filter (\<lambda>r. Latitude r \<noteq> None \<and> Longitude r \<noteq> None) rows)) \<and>
         sum_list (map snd (timeline_fig rows)) = length rows \<and>
         map item_name (filter (\<lambda>i. i \<noteq> Placeholder) (project_list v rows new_selected))
           = map Project rows"
proof -
  have m: "mset (markers (map_fig v rows new_selected)) = mset (map marker_of rows)"
    using assms by (rule markers_mset)
  then have "size (mset (markers (map_fig v rows new_selected))) = size (mset (map marker_of rows))"
    by simp
  then have l: "length (markers (map_fig v rows new_selected)) = length rows"
    by simp
  have t: "sum_list (map snd (timeline_fig rows)) = length rows"
    by (simp add: timeline_fig_def timeline_data_sum)
  have c: "mset (filter (\<lambda>m. lat m \<noteq> None \<and> lon m \<noteq> None)
                   (markers (map_fig v rows new_selected)))
             = mset (map marker_of
                       (filter (\<lambda>r. Latitude r \<noteq> None \<and> Longitude r \<noteq> None) rows))"
  proof -
    let ?P = "\<lambda>m. lat m \<noteq> None \<and> lon m \<noteq> None"
    have "mset (filter ?P (markers (map_fig v rows new_selected)))
            = filter_mset ?P (mset (markers (map_fig v rows new_selected)))"
      by (rule mset_filter)
    also have "\<dots> = filter_mset ?P (mset (map marker_of rows))"
      by (simp only: m)
    also have "\<dots> = mset (filter ?P (map marker_of rows))"
      by (rule mset_filter [symmetric])
    also have "\<dots> = mset (map marker_of
                   (filter (\<lambda>r. Latitude r \<noteq> None \<and> Longitude r \<noteq> None) rows))"
      by (simp only: markers_with_coordinates)
    finally show ?thesis .
  qed
  from m l c t project_list_names show ?thesis by blast
qed

theorem map_fig_markers_witness:
  "map customdata (markers (map_fig MapDashboard [sample_bridge, sample_house] ''Beta Bridge''))
     = [''Alpha House'', ''Beta Bridge''] \<and>
   length (markers (map_fig MapDashboard [sample_bridge, sample_house] ''Beta Bridge''))
     = length [sample_bridge, sample_house] \<and>
   Project sample_bridge \<noteq> [] \<and> Project sample_house \<noteq> []"
proof -
  have n: "\<forall>r \<in> set [sample_bridge, sample_house]. Project r \<noteq> []"
    by (simp add: sample_bridge_def sample_house_def)
  have e: "map customdata (markers (map_fig MapDashboard [sample_bridge, sample_house] ''Beta Bridge''))
     = [''Alpha House'', ''Beta Bridge'']"
    by code_simp
  from map_fig_markers [OF n, of MapDashboard "''Beta Bridge''"] n e
  show ?thesis by simp
qed

text \<open>
  The claim that a row without a coordinate has no entry among the markers fails: a single
  row without latitude yields one marker, whose latitude is missing, in both variants.
\<close>

theorem markers_missing_coordinate_counterexample:
  "Latitude sample_house = None \<and>
   map customdata (markers (map_fig App [sample_house] [])) = [Project sample_house] \<and>
   map lat (markers (map_fig App [sample_house] [])) = [None] \<and>
   map customdata (markers (map_fig MapDashboard [sample_house] [])) = [Project sample_house] \<and>
   map lat (markers (map_fig MapDashboard [sample_house] [])) = [None]"
  by code_simp

section \<open>Chat orchestrator: reset wins\<close>


lemma reset_empty_catalog:
  assumes "py_any_in reset_keywords (py_lower message)" and "df_empty df"
  shows "apply_commands df (parse_filter_command v message) current_material current_year_range
         = (''all'', (2015, 2025), Some FiltersReset)"
  using assms by (simp add: parse_filter_command_def apply_commands_def)



section \<open>Chat orchestrator: the easter egg\<close>

lemma no_prank_in_empty: "\<not> py_any_in pk_variations (message_clean [])"
  by code_simp

text \<open>
  Claim C10. In \<open>map_dashboard.py\<close>, for every message sent whose lowercased text without
  commas, full stops and exclamation marks holds one of the four trigger phrases, the chat
  handler appends the message and the fixed reply to the display, cut to its last 20 lines,
  and returns the material filter, the year range and the stored history exactly as they
  were, whatever else the message holds.
\<close>

theorem pizza_hawaii_frame:
  assumes "truthy n_clicks \<or> truthy n_submit"
    and "py_any_in pk_variations (message_clean message)"
  shows "update_chat_with_filters MapDashboard df api_key llm n_clicks n_submit (Some message)
           current_chat current_material current_year_range stored_history
         = \<lparr> chat_display =
               last_n 20 ((case current_chat of None \<Rightarrow> [] | Some ds \<Rightarrow> ds) @ [You message, AIPrank]),
             chat_input = [],
             material_value = current_material,
             year_value = current_year_range,
             history_store = stored_history \<rparr>"
proof -
  from assms(2) have "message \<noteq> []" using no_prank_in_empty by auto
  with assms show ?thesis by (simp add: update_chat_with_filters_def)
qed

theorem pizza_hawaii_frame_witness:
  "py_any_in pk_variations (message_clean ''Reset! Metal 2020. I am PK, and I like pizza Hawaii!'') \<and>
   cmd_reset (parse_filter_command MapDashboard ''Reset! Metal 2020. I am PK, and I like pizza Hawaii!'') \<and>
   update_chat_with_filters MapDashboard (Frame [sample_house, sample_bridge]) (Some ''key'')
       (\<lambda>q. Inr ''hello'') (Some 1) None
       (Some ''Reset! Metal 2020. I am PK, and I like pizza Hawaii!'') None
       ''Composite'' (2019, 2021) (Some [(User, ''hi'')])
     = \<lparr> chat_display = [You ''Reset! Metal 2020. I am PK, and I like pizza Hawaii!'', AIPrank],
         chat_input = [], material_value = ''Composite'', year_value = (2019, 2021),
         history_store = Some [(User, ''hi'')] \<rparr>"
proof -
  have t: "truthy (Some 1) \<or> truthy None" by (simp add: truthy_def)
  have p: "py_any_in pk_variations
             (message_clean ''Reset! Metal 2020. I am PK, and I like pizza Hawaii!'')"
    by code_simp
  have c: "cmd_reset (parse_filter_command MapDashboard
             ''Reset! Metal 2020. I am PK, and I like pizza Hawaii!'')"
    by code_simp
  from pizza_hawaii_frame [OF t p, of "Frame [sample_house, sample_bridge]" "Some ''key''"
      "\<lambda>q. Inr ''hello''" None "''Composite''" "(2019, 2021)" "Some [(User, ''hi'')]"] p c
  show ?thesis by (simp add: last_n_def)
qed

section \<open>Chat orchestrator: a failing call\<close>

text \<open>
  What each variant returns when the text-generation call fails, for a message that is
  sent, with a key and a catalog frame with rows at hand. \<open>app.py\<close> catches the failure around the
  call and goes on: the display gets the filter message with the error text, and the new
  filter values are returned. \<open>map_dashboard.py\<close> has no handler around the call; the
  failure reaches the handler of the whole callback, which returns the current filter
  values and the stored history. On a frame without rows neither variant reaches the call:
  the missing column \<open>Material_Category\<close> raises before, and the current values are
  returned.
\<close>

lemma chat_call_fails_app:
  assumes "truthy n_clicks \<or> truthy n_submit" and "message \<noteq> []"
    and "api_key = Some k" and "k \<noteq> []" and "rows \<noteq> []"
    and "apply_commands (Frame rows) (parse_filter_command App message) current_material
           current_year_range = (new_material, new_year_range, filter_message)"
  shows "update_chat_with_filters App (Frame rows) api_key (\<lambda>q. Inl e) n_clicks n_submit
           (Some message) current_chat current_material current_year_range stored_history
         = \<lparr> chat_display =
               last_n 20 ((case current_chat of None \<Rightarrow> [] | Some ds \<Rightarrow> ds)
                          @ [You message, AI filter_message (CallFailed e)]),
             chat_input = [],
             material_value = new_material,
             year_value = new_year_range,
             history_store =
               Some (last_n 6 (last_n 6
                 ((case stored_history of None \<Rightarrow> [] | Some h \<Rightarrow> h) @ [(User, message)]))) \<rparr>"
  using assms by (simp add: update_chat_with_filters_def Let_def)

lemma chat_call_fails_map_dashboard:
  assumes "truthy n_clicks \<or> truthy n_submit" and "message \<noteq> []"
    and "\<not> py_any_in pk_variations (message_clean message)"
    and "api_key = Some k" and "k \<noteq> []" and "rows \<noteq> []"
  shows "update_chat_with_filters MapDashboard (Frame rows) api_key (\<lambda>q. Inl e) n_clicks n_submit
           (Some message) current_chat current_material current_year_range stored_history
         = \<lparr> chat_display =
               (case current_chat of None \<Rightarrow> [] | Some ds \<Rightarrow> ds)
                 @ [You message, AIError (take 50 e)],
             chat_input = [],
             material_value = current_material,
             year_value = current_year_range,
             history_store = stored_history \<rparr>"
  using assms
  by (simp add: update_chat_with_filters_def Let_def error_reply_def split: prod.splits)

lemma chat_frame_without_rows:
  "material_value (update_chat_with_filters v (Frame []) api_key llm n_clicks n_submit
       message current_chat current_material current_year_range stored_history)
     = current_material \<and>
   year_value (update_chat_with_filters v (Frame []) api_key llm n_clicks n_submit
       message current_chat current_material current_year_range stored_history)
     = current_year_range \<and>
   history_store (update_chat_with_filters v (Frame []) api_key llm n_clicks n_submit
       message current_chat current_material current_year_range stored_history)
     = stored_history"
  by (simp add: update_chat_with_filters_def error_reply_def Let_def
           split: option.splits prod.splits)

text \<open>
  Claim C3 asks that a failing call leaves the filter values as computed from the parsed
  commands. For the message \<open>show concrete projects\<close>, sent while the material filter is
  \<open>all\<close>, the parsed commands give the material Concrete/Cement. When the call fails,
  \<open>map_dashboard.py\<close> shows one error line and returns the material \<open>all\<close>: the filter
  change is lost. \<open>app.py\<close> returns Concrete/Cement on the same input.
\<close>

theorem chat_call_fails_filters_lost:
  "apply_commands (Frame [sample_house, sample_bridge])
       (parse_filter_command MapDashboard ''show concrete projects'') ''all'' (2015, 2025)
     = (''Concrete/Cement'', (2015, 2025), Some (FiltersApplied (Some ''Concrete/Cement'') None)) \<and>
   update_chat_with_filters MapDashboard (Frame [sample_house, sample_bridge]) (Some ''key'')
       (\<lambda>q. Inl ''Request timed out.'') (Some 1) None (Some ''show concrete projects'') None
       ''all'' (2015, 2025) None
     = \<lparr> chat_display = [You ''show concrete projects'', AIError ''Request timed out.''],
         chat_input = [], material_value = ''all'', year_value = (2015, 2025),
         history_store = None \<rparr> \<and>
   update_chat_with_filters App (Frame [sample_house, sample_bridge]) (Some ''key'')
       (\<lambda>q. Inl ''Request timed out.'') (Some 1) None (Some ''show concrete projects'') None
       ''all'' (2015, 2025) None
     = \<lparr> chat_display =
           [You ''show concrete projects'',
            AI (Some (FiltersApplied (Some ''Concrete/Cement'') None))
               (CallFailed ''Request timed out.'')],
         chat_input = [], material_value = ''Concrete/Cement'', year_value = (2015, 2025),
         history_store = Some [(User, ''show concrete projects'')] \<rparr>"
  by code_simp

section \<open>Selection: toggling and the clicked project\<close>

text \<open>
  Once the clicked project is known, both callbacks follow the selection state machine: a
  close action deselects, a click on the selected project deselects, a click on another
  project selects it at once. A click on a marker carries the project name as
  \<open>customdata\<close>; a click on a list item carries it inside the \<open>prop_id\<close>, from which
  the callbacks read it back.
\<close>

lemma toggle_same: "toggle p (Some p) = []"
  by (simp add: toggle_def)

lemma toggle_other: "current \<noteq> Some q \<Longrightarrow> toggle q current = q"
  by (auto simp: toggle_def)

lemma update_selection_close:
  "py_in ''close-panel'' trigger_id \<Longrightarrow>
     update_selection json_name (trigger_id # others) map_click_data current_selected = []"
  by (simp add: update_selection_def)

lemma marker_id_dispatch:
  "\<not> py_in ''close-panel'' ''world-map.clickData'' \<and>
   py_in ''world-map.clickData'' ''world-map.clickData''"
  by code_simp

lemma update_selection_marker:
  "update_selection json_name [''world-map.clickData''] (Some (Some p # ps)) current_selected
     = toggle p current_selected"
  using marker_id_dispatch
  by (simp add: update_selection_def clicked_customdata_def)

lemma update_selection_item:
  assumes "\<not> py_in ''close-panel'' trigger_id"
    and "\<not> py_in ''world-map.clickData'' trigger_id"
    and "py_in ''project-item'' trigger_id"
    and "json_name (takeWhile (\<lambda>c. c \<noteq> CHR ''.'') trigger_id) = Some p"
  shows "update_selection json_name (trigger_id # others) map_click_data current_selected
           = toggle p current_selected"
  using assms by (simp add: update_selection_def)

lemma update_selection_fallback:
  assumes "\<not> py_in ''close-panel'' trigger_id"
    and "\<not> py_in ''world-map.clickData'' trigger_id"
    and "py_in ''project-item'' trigger_id"
    and "json_name (takeWhile (\<lambda>c. c \<noteq> CHR ''.'') trigger_id) = None"
    and "extract_project_name trigger_id = Some p"
  shows "update_selection json_name (trigger_id # others) map_click_data current_selected
           = toggle p current_selected"
  using assms by (simp add: update_selection_def)

lemma toggle_project_panel_close:
  "py_in ''close-panel'' trigger_id \<Longrightarrow>
     toggle_project_panel df (trigger_id # others) project_clicks map_click_data
       current_open_project = (SlideOut, NoContent, [])"
  by (simp add: toggle_project_panel_def)

lemma toggle_project_panel_marker:
  assumes "p \<noteq> []" and "\<not> df_empty df"
  shows "snd (snd (toggle_project_panel df [''world-map.clickData''] project_clicks
                     (Some (Some p # ps)) current_open_project))
           = (if p = current_open_project then [] else p)"
  using assms marker_id_dispatch
  by (simp add: toggle_project_panel_def clicked_customdata_def split: frame.splits option.splits)

lemma gaia_item_dispatch:
  "\<not> py_in ''close-panel'' gaia_item_id \<and> \<not> py_in ''world-map.clickData'' gaia_item_id \<and>
   py_in ''project-item'' gaia_item_id \<and> extract_project_name gaia_item_id = Some [CHR 0x5C]"
  by code_simp

text \<open>
  Claim C6 asks that a click on a list item of a project other than the selected one makes
  that project the selection. For a project whose name holds a double quote the name read
  back from the \<open>prop_id\<close> is wrong. \<open>app.py\<close> takes the text up to the next double quote,
  which here is the quote written after the first backslash: the open project becomes a
  single backslash and the panel shows the error content. \<open>map_dashboard.py\<close> decodes the
  JSON text first, but only the part before the first full stop; that part is cut off inside
  the name, decoding fails for every JSON decoder, and the fallback reads the name as
  \<open>app.py\<close> does.
\<close>

theorem list_item_click_wrong_name:
  "Project sample_gaia = ''\"Gaia\" by W.A.S.P.'' \<and>
   toggle_project_panel (Frame [sample_gaia]) [gaia_item_id] [Some 1] None []
     = (SlideIn, ErrorContent, [CHR 0x5C]) \<and>
   (\<forall>json_name.
      update_selection (json_name(takeWhile (\<lambda>c. c \<noteq> CHR ''.'') gaia_item_id := None))
        [gaia_item_id] None (Some []) = [CHR 0x5C])"
proof (intro conjI allI)
  show "Project sample_gaia = ''\"Gaia\" by W.A.S.P.''"
    by (simp add: sample_gaia_def)
  show "toggle_project_panel (Frame [sample_gaia]) [gaia_item_id] [Some 1] None []
          = (SlideIn, ErrorContent, [CHR 0x5C])"
    by code_simp
  fix json_name :: "string \<Rightarrow> string option"
  let ?j = "json_name(takeWhile (\<lambda>c. c \<noteq> CHR ''.'') gaia_item_id := None)"
  have "?j (takeWhile (\<lambda>c. c \<noteq> CHR ''.'') gaia_item_id) = None" by simp
  with gaia_item_dispatch
  have "update_selection ?j (gaia_item_id # []) None (Some []) = toggle [CHR 0x5C] (Some [])"
    by (intro update_selection_fallback) simp_all
  then show "update_selection ?j [gaia_item_id] None (Some []) = [CHR 0x5C]"
    by (simp add: toggle_def)
qed

end
